theory Spec2Isabelle
  imports Main
begin

unbundle bit_operations_syntax

section \<open>Values supplied by the host platform\<close>

text \<open>
  The component \<^verbatim>\<open>custom_components/template_climate/climate.py\<close> is glue over the
  host platform. Host objects appear here only as far as the component reads or builds
  them: a script is the tuple its constructor receives, a template is the string it was
  built from, and the base climate entity is the four attributes the component reads.
\<close>

datatype py_value = Py_int int | Py_str string

text \<open>\<^verbatim>\<open>dict[str, Any]\<close>: an association list in insertion order. A Python dict has
  no repeated key; no statement below depends on that.\<close>

type_synonym variables = "(string \<times> py_value) list"

type_synonym script_sequence = "variables list"

type_synonym Context = string

text \<open>An exception raised by a host call.\<close>

datatype exn = Exn string

datatype Template = Template (template: "string option")

datatype Script = Script (sequence: script_sequence) (script_name: string) (script_domain: string)

definition CLIMATE_DOMAIN :: string where
  "CLIMATE_DOMAIN = ''climate''"

text \<open>The keys of \<^verbatim>\<open>const.py\<close> that the entity class looks up in its service-script
  mapping. Their string values are not part of \<^verbatim>\<open>climate.py\<close>, so every operation
  takes them as a parameter.\<close>

record conf_keys =
  CONF_SET_TEMPERATURE_SCRIPT :: string
  CONF_SET_HUMIDITY_SCRIPT :: string
  CONF_TURN_ON_SCRIPT :: string
  CONF_TURN_OFF_SCRIPT :: string
  CONF_TOGGLE_SCRIPT :: string

text \<open>The members of the host's \<^verbatim>\<open>ClimateEntityFeature\<close> integer flag that the component
  uses. Their bit values belong to the host, so they are a parameter too.\<close>

record ClimateEntityFeature =
  TARGET_TEMPERATURE :: int
  TARGET_HUMIDITY :: int
  FAN_MODE :: int
  PRESET_MODE :: int
  SWING_MODE :: int
  SWING_HORIZONTAL_MODE :: int
  TURN_OFF :: int
  TURN_ON :: int

text \<open>The base climate entity, as far as \<^verbatim>\<open>TemplateClimate\<close> reads it.\<close>

record ClimateEntity =
  base_entity_id :: string
  base_supported_features :: int
  base_state :: "string option"
  base_hvac_modes :: "string list option"
  base_preset_modes :: "string list option"

text \<open>\<^verbatim>\<open>hass.data[CLIMATE_DOMAIN]\<close> is the climate entity component; \<^verbatim>\<open>get_entity\<close>
  looks an entity id up in it.\<close>

record HomeAssistant =
  data_climate :: "string \<Rightarrow> ClimateEntity option"

definition get_entity :: "HomeAssistant \<Rightarrow> string \<Rightarrow> ClimateEntity option" where
  "get_entity hass eid = data_climate hass eid"

section \<open>Configuration and the entity\<close>

text \<open>A validated entry of \<^verbatim>\<open>CLIMATE_SCHEMA\<close>: the unit is required, the state template
  and the base entity id are optional, and the six script mappings default to the empty
  mapping.\<close>

record ConfigType =
  conf_unique_id :: "string option"
  conf_temperature_unit :: string
  conf_state :: "string option"
  conf_base_climate_entity_id :: "string option"
  conf_service_scripts :: "(string \<times> script_sequence) list"
  conf_hvac_mode_scripts :: "(string \<times> script_sequence) list"
  conf_preset_mode_scripts :: "(string \<times> script_sequence) list"
  conf_fan_mode_scripts :: "(string \<times> script_sequence) list"
  conf_swing_mode_scripts :: "(string \<times> script_sequence) list"
  conf_swing_horizontal_mode_scripts :: "(string \<times> script_sequence) list"

text \<open>The attributes of \<^verbatim>\<open>TemplateClimate\<close>; \<^verbatim>\<open>self._x\<close> is the field \<open>self_x\<close>.
  \<^verbatim>\<open>_context\<close> is owned by the host's entity base class, which starts it at \<^verbatim>\<open>None\<close>;
  the write actions read it.\<close>

record TemplateClimate =
  self_unique_id :: "string option"
  self_attr_should_poll :: bool
  self_attr_temperature_unit :: string
  self_base_climate_entity_id :: "string option"
  self_state_template :: "Template option"
  self_state :: "string option"
  self_service_scripts :: "(string \<times> Script) list"
  self_hvac_mode_scripts :: "(string \<times> Script) list"
  self_preset_mode_scripts :: "(string \<times> Script) list"
  self_fan_mode_scripts :: "(string \<times> Script) list"
  self_swing_mode_scripts :: "(string \<times> Script) list"
  self_swing_horizontal_mode_scripts :: "(string \<times> Script) list"
  self_context :: "Context option"

definition dict_keys :: "('k \<times> 'v) list \<Rightarrow> 'k list" where
  "dict_keys d = map fst d"

text \<open>\<^verbatim>\<open>{k: Script(hass, v, name, CLIMATE_DOMAIN) for k, v in d.items()}\<close>\<close>

definition make_scripts :: "string \<Rightarrow> (string \<times> script_sequence) list \<Rightarrow> (string \<times> Script) list" where
  "make_scripts name d = map (\<lambda>(k, v). (k, Script v name CLIMATE_DOMAIN)) d"

text \<open>
  \<^verbatim>\<open>__init__\<close>. The state template is built by \<^verbatim>\<open>Template(config.get(CONF_STATE), hass)\<close>
  whether or not the configuration has a state template, so the host's constructor may
  receive \<^verbatim>\<open>None\<close>, outside its declared parameter type. What the constructor does then
  is the host's business: \<open>Template_init\<close> is a parameter, and a constructor that raises
  makes \<^verbatim>\<open>__init__\<close> raise. The constructor of the host's base class receives the
  unique id, which defaults to the name.
\<close>

definition init ::
  "(string option \<Rightarrow> exn + Template) \<Rightarrow> ConfigType \<Rightarrow> string \<Rightarrow> exn + TemplateClimate" where
  "init Template_init config name =
     (let unique_id = (case conf_unique_id config of None \<Rightarrow> Some name | Some u \<Rightarrow> Some u) in
      case Template_init (conf_state config) of
        Inl e \<Rightarrow> Inl e
      | Inr t \<Rightarrow>
          Inr \<lparr> self_unique_id = unique_id,
                self_attr_should_poll = False,
                self_attr_temperature_unit = conf_temperature_unit config,
                self_base_climate_entity_id = conf_base_climate_entity_id config,
                self_state_template = Some t,
                self_state = None,
                self_service_scripts = make_scripts name (conf_service_scripts config),
                self_hvac_mode_scripts = make_scripts name (conf_hvac_mode_scripts config),
                self_preset_mode_scripts = make_scripts name (conf_preset_mode_scripts config),
                self_fan_mode_scripts = make_scripts name (conf_fan_mode_scripts config),
                self_swing_mode_scripts = make_scripts name (conf_swing_mode_scripts config),
                self_swing_horizontal_mode_scripts =
                  make_scripts name (conf_swing_horizontal_mode_scripts config),
                self_context = None \<rparr>)"

text \<open>A constructor that accepts every argument and stores it.\<close>

definition Template_accepting :: "string option \<Rightarrow> exn + Template" where
  "Template_accepting s = Inr (Template s)"

text \<open>A constructor that insists on a string.\<close>

definition Template_strict :: "string option \<Rightarrow> exn + Template" where
  "Template_strict s =
     (case s of None \<Rightarrow> Inl (Exn ''TypeError'') | Some t \<Rightarrow> Inr (Template (Some t)))"

section \<open>Read paths\<close>

text \<open>The property \<^verbatim>\<open>_base_climate_entity\<close>: the id must be truthy (present and not the
  empty string) and the lookup must find an entity; it is resolved anew at every access.
  The callers test the result for truthiness: an entity object is truthy, \<^verbatim>\<open>None\<close> is
  not.\<close>

definition base_climate_entity :: "HomeAssistant \<Rightarrow> TemplateClimate \<Rightarrow> ClimateEntity option" where
  "base_climate_entity hass self =
     (case self_base_climate_entity_id self of
        None \<Rightarrow> None
      | Some eid \<Rightarrow> if eid = [] then None else get_entity hass eid)"

text \<open>\<^verbatim>\<open>supported_features\<close>: the statements \<^verbatim>\<open>support |= flag\<close> in the order of the
  source.\<close>

definition supported_features ::
  "conf_keys \<Rightarrow> ClimateEntityFeature \<Rightarrow> HomeAssistant \<Rightarrow> TemplateClimate \<Rightarrow> int" where
  "supported_features K F hass self =
     (let support = 0;
          support = (case base_climate_entity hass self of
                       Some b \<Rightarrow> support OR base_supported_features b
                     | None \<Rightarrow> support);
          support = (if CONF_TURN_ON_SCRIPT K \<in> set (dict_keys (self_service_scripts self))
                     then support OR TURN_ON F else support);
          support = (if CONF_TURN_OFF_SCRIPT K \<in> set (dict_keys (self_service_scripts self))
                     then support OR TURN_OFF F else support);
          support = (if CONF_SET_TEMPERATURE_SCRIPT K \<in> set (dict_keys (self_service_scripts self))
                     then support OR TARGET_TEMPERATURE F else support);
          support = (if CONF_SET_HUMIDITY_SCRIPT K \<in> set (dict_keys (self_service_scripts self))
                     then support OR TARGET_HUMIDITY F else support);
          support = (if self_fan_mode_scripts self \<noteq> []
                     then support OR FAN_MODE F else support);
          support = (if self_preset_mode_scripts self \<noteq> []
                     then support OR PRESET_MODE F else support);
          support = (if self_swing_mode_scripts self \<noteq> []
                     then support OR SWING_MODE F else support);
          support = (if self_swing_horizontal_mode_scripts self \<noteq> []
                     then support OR SWING_HORIZONTAL_MODE F else support)
      in support)"

text \<open>\<^verbatim>\<open>state\<close>. The first test is the truthiness of \<^verbatim>\<open>self._state_template\<close>, of type
  \<^verbatim>\<open>Template | None\<close>: a template object is truthy, \<^verbatim>\<open>None\<close> is not.\<close>

definition state :: "HomeAssistant \<Rightarrow> TemplateClimate \<Rightarrow> string option" where
  "state hass self =
     (if self_state_template self \<noteq> None then self_state self
      else case base_climate_entity hass self of
             Some b \<Rightarrow> base_state b
           | None \<Rightarrow> None)"

text \<open>\<^verbatim>\<open>hvac_modes\<close>, of type \<^verbatim>\<open>list | list[str] | None\<close>.\<close>

definition hvac_modes :: "HomeAssistant \<Rightarrow> TemplateClimate \<Rightarrow> string list option" where
  "hvac_modes hass self =
     (if self_hvac_mode_scripts self \<noteq> [] then Some (dict_keys (self_hvac_mode_scripts self))
      else case base_climate_entity hass self of
             Some b \<Rightarrow> base_hvac_modes b
           | None \<Rightarrow> Some [])"

text \<open>\<^verbatim>\<open>preset_modes\<close>, of type \<^verbatim>\<open>list[str] | None\<close>.\<close>

definition preset_modes :: "HomeAssistant \<Rightarrow> TemplateClimate \<Rightarrow> string list option" where
  "preset_modes hass self =
     (if self_preset_mode_scripts self \<noteq> [] then Some (dict_keys (self_preset_mode_scripts self))
      else case base_climate_entity hass self of
             Some b \<Rightarrow> base_preset_modes b
           | None \<Rightarrow> None)"

section \<open>The state-template callback\<close>

text \<open>
  What the host delivers to \<^verbatim>\<open>_update_state\<close>: a \<^verbatim>\<open>TemplateError\<close> or the rendered
  value. The callback first calls the base class's \<^verbatim>\<open>_update_state\<close>, which works on
  attributes of the host's base class that are no field of \<^verbatim>\<open>TemplateClimate\<close>.
\<close>

datatype 'v render_result = TemplateError string | Rendered 'v

text \<open>\<^verbatim>\<open>_LOGGER.error(format, result)\<close>\<close>

datatype 'v log_record = Log_error string "'v render_result"

text \<open>
  \<^verbatim>\<open>_update_state\<close>. The conversion \<^verbatim>\<open>str(result)\<close> is the parameter \<open>str\<close>; its
  value \<open>None\<close> stands for the \<^verbatim>\<open>ValueError\<close> that the handler of the source names. The
  result is the entity after the callback and the records it logged.
\<close>

definition update_state ::
  "('v \<Rightarrow> string option) \<Rightarrow> 'v render_result \<Rightarrow> TemplateClimate \<Rightarrow>
     TemplateClimate \<times> 'v log_record list" where
  "update_state str result self =
     (case result of
        TemplateError err \<Rightarrow>
          (self\<lparr>self_state := None\<rparr>,
           [Log_error ''Could not render state template: %s'' result])
      | Rendered v \<Rightarrow>
          (case str v of
             Some s \<Rightarrow> (self\<lparr>self_state := Some s\<rparr>, [])
           | None \<Rightarrow>
               (self\<lparr>self_state := None\<rparr>,
                [Log_error ''Received invalid state: %s'' result])))"

section \<open>Write paths\<close>

text \<open>A write action of the climate contract with its arguments.\<close>

datatype service_call =
    Set_temperature variables
  | Set_humidity int
  | Set_fan_mode string
  | Set_hvac_mode string
  | Set_swing_mode string
  | Set_swing_horizontal_mode string
  | Set_preset_mode string
  | Turn_on
  | Turn_off
  | Toggle

text \<open>
  The two calls a write action awaits: \<^verbatim>\<open>script.async_run(run_variables, context)\<close>,
  where \<open>None\<close> for the variables is a run without them, and a method of the resolved
  base entity.
\<close>

datatype call =
    Script_run Script "variables option" "Context option"
  | Entity_call ClimateEntity service_call

text \<open>
  The host decides what an awaited call does: it may raise, and it may change the
  registry of climate entities. The component only sees the outcome.
\<close>

type_synonym host = "call \<Rightarrow> HomeAssistant \<Rightarrow> exn option \<times> HomeAssistant"

text \<open>The entity, the host's registry and the calls awaited so far, oldest first.\<close>

record system =
  sys_entity :: TemplateClimate
  sys_hass :: HomeAssistant
  sys_calls :: "call list"

definition await :: "host \<Rightarrow> call \<Rightarrow> system \<Rightarrow> exn option \<times> system" where
  "await h c s =
     (case h c (sys_hass s) of
        (r, hass') \<Rightarrow> (r, s\<lparr>sys_hass := hass', sys_calls := sys_calls s @ [c]\<rparr>))"

text \<open>Two statements in sequence: an exception of the first leaves the second out.\<close>

definition seq ::
  "(system \<Rightarrow> exn option \<times> system) \<Rightarrow> (system \<Rightarrow> exn option \<times> system) \<Rightarrow>
     system \<Rightarrow> exn option \<times> system" where
  "seq f g s = (case f s of (Some e, s') \<Rightarrow> (Some e, s') | (None, s') \<Rightarrow> g s')"

text \<open>\<^verbatim>\<open>if key in scripts: await scripts[key].async_run(variables, context=self._context)\<close>\<close>

definition run_script ::
  "host \<Rightarrow> (TemplateClimate \<Rightarrow> (string \<times> Script) list) \<Rightarrow> string \<Rightarrow> variables option \<Rightarrow>
     system \<Rightarrow> exn option \<times> system" where
  "run_script h scripts key vars s =
     (case map_of (scripts (sys_entity s)) key of
        Some script \<Rightarrow> await h (Script_run script vars (self_context (sys_entity s))) s
      | None \<Rightarrow> (None, s))"

text \<open>\<^verbatim>\<open>if self._base_climate_entity: await self._base_climate_entity.method(args)\<close>\<close>

definition forward :: "host \<Rightarrow> service_call \<Rightarrow> system \<Rightarrow> exn option \<times> system" where
  "forward h a s =
     (case base_climate_entity (sys_hass s) (sys_entity s) of
        Some b \<Rightarrow> await h (Entity_call b a) s
      | None \<Rightarrow> (None, s))"

definition async_set_temperature ::
  "conf_keys \<Rightarrow> host \<Rightarrow> variables \<Rightarrow> system \<Rightarrow> exn option \<times> system" where
  "async_set_temperature K h kwargs =
     seq (run_script h self_service_scripts (CONF_SET_TEMPERATURE_SCRIPT K) (Some kwargs))
         (forward h (Set_temperature kwargs))"

definition async_set_humidity ::
  "conf_keys \<Rightarrow> host \<Rightarrow> int \<Rightarrow> system \<Rightarrow> exn option \<times> system" where
  "async_set_humidity K h humidity =
     seq (run_script h self_service_scripts (CONF_SET_HUMIDITY_SCRIPT K)
            (Some [(''humidity'', Py_int humidity)]))
         (forward h (Set_humidity humidity))"

definition async_set_fan_mode :: "host \<Rightarrow> string \<Rightarrow> system \<Rightarrow> exn option \<times> system" where
  "async_set_fan_mode h fan_mode =
     seq (run_script h self_fan_mode_scripts fan_mode None)
         (forward h (Set_fan_mode fan_mode))"

definition async_set_hvac_mode :: "host \<Rightarrow> string \<Rightarrow> system \<Rightarrow> exn option \<times> system" where
  "async_set_hvac_mode h hvac_mode =
     seq (run_script h self_hvac_mode_scripts hvac_mode None)
         (forward h (Set_hvac_mode hvac_mode))"

definition async_set_swing_mode :: "host \<Rightarrow> string \<Rightarrow> system \<Rightarrow> exn option \<times> system" where
  "async_set_swing_mode h swing_mode =
     seq (run_script h self_swing_mode_scripts swing_mode None)
         (forward h (Set_swing_mode swing_mode))"

definition async_set_swing_horizontal_mode ::
  "host \<Rightarrow> string \<Rightarrow> system \<Rightarrow> exn option \<times> system" where
  "async_set_swing_horizontal_mode h swing_horizontal_mode =
     seq (run_script h self_swing_horizontal_mode_scripts swing_horizontal_mode None)
         (forward h (Set_swing_horizontal_mode swing_horizontal_mode))"

definition async_set_preset_mode :: "host \<Rightarrow> string \<Rightarrow> system \<Rightarrow> exn option \<times> system" where
  "async_set_preset_mode h preset_mode =
     seq (run_script h self_preset_mode_scripts preset_mode None)
         (forward h (Set_preset_mode preset_mode))"

definition async_turn_on :: "conf_keys \<Rightarrow> host \<Rightarrow> system \<Rightarrow> exn option \<times> system" where
  "async_turn_on K h =
     seq (run_script h self_service_scripts (CONF_TURN_ON_SCRIPT K) None)
         (forward h Turn_on)"

definition async_turn_off :: "conf_keys \<Rightarrow> host \<Rightarrow> system \<Rightarrow> exn option \<times> system" where
  "async_turn_off K h =
     seq (run_script h self_service_scripts (CONF_TURN_OFF_SCRIPT K) None)
         (forward h Turn_off)"

definition async_toggle :: "conf_keys \<Rightarrow> host \<Rightarrow> system \<Rightarrow> exn option \<times> system" where
  "async_toggle K h =
     seq (run_script h self_service_scripts (CONF_TOGGLE_SCRIPT K) None)
         (forward h Toggle)"

text \<open>The host's dispatch of a service call to the method of the entity.\<close>

fun write_action :: "conf_keys \<Rightarrow> host \<Rightarrow> service_call \<Rightarrow> system \<Rightarrow> exn option \<times> system" where
  "write_action K h (Set_temperature kwargs) = async_set_temperature K h kwargs"
| "write_action K h (Set_humidity humidity) = async_set_humidity K h humidity"
| "write_action K h (Set_fan_mode m) = async_set_fan_mode h m"
| "write_action K h (Set_hvac_mode m) = async_set_hvac_mode h m"
| "write_action K h (Set_swing_mode m) = async_set_swing_mode h m"
| "write_action K h (Set_swing_horizontal_mode m) = async_set_swing_horizontal_mode h m"
| "write_action K h (Set_preset_mode m) = async_set_preset_mode h m"
| "write_action K h Turn_on = async_turn_on K h"
| "write_action K h Turn_off = async_turn_off K h"
| "write_action K h Toggle = async_toggle K h"

text \<open>
  The script a write action looks for: the entry of the service-script mapping under the
  action's key, or the entry of the mode mapping under the requested mode.
\<close>

fun applicable_script :: "conf_keys \<Rightarrow> TemplateClimate \<Rightarrow> service_call \<Rightarrow> Script option" where
  "applicable_script K self (Set_temperature kwargs) =
     map_of (self_service_scripts self) (CONF_SET_TEMPERATURE_SCRIPT K)"
| "applicable_script K self (Set_humidity humidity) =
     map_of (self_service_scripts self) (CONF_SET_HUMIDITY_SCRIPT K)"
| "applicable_script K self (Set_fan_mode m) = map_of (self_fan_mode_scripts self) m"
| "applicable_script K self (Set_hvac_mode m) = map_of (self_hvac_mode_scripts self) m"
| "applicable_script K self (Set_swing_mode m) = map_of (self_swing_mode_scripts self) m"
| "applicable_script K self (Set_swing_horizontal_mode m) =
     map_of (self_swing_horizontal_mode_scripts self) m"
| "applicable_script K self (Set_preset_mode m) = map_of (self_preset_mode_scripts self) m"
| "applicable_script K self Turn_on = map_of (self_service_scripts self) (CONF_TURN_ON_SCRIPT K)"
| "applicable_script K self Turn_off = map_of (self_service_scripts self) (CONF_TURN_OFF_SCRIPT K)"
| "applicable_script K self Toggle = map_of (self_service_scripts self) (CONF_TOGGLE_SCRIPT K)"

text \<open>
  The arguments of the action as run variables: the keyword arguments of set-temperature,
  the humidity under its name, and none for an action whose argument only selects the
  script or that has no argument.
\<close>

fun run_variables :: "service_call \<Rightarrow> variables option" where
  "run_variables (Set_temperature kwargs) = Some kwargs"
| "run_variables (Set_humidity humidity) = Some [(''humidity'', Py_int humidity)]"
| "run_variables a = None"

section \<open>Histories of operations\<close>

text \<open>What can happen to an entity after its construction: the host dispatches a write
  action, or the template tracker delivers a render result to the callback.\<close>

datatype 'v operation = Write service_call | Update "'v render_result"

fun step ::
  "conf_keys \<Rightarrow> host \<Rightarrow> ('v \<Rightarrow> string option) \<Rightarrow> system \<Rightarrow> 'v operation \<Rightarrow> system" where
  "step K h str s (Write a) = snd (write_action K h a s)"
| "step K h str s (Update r) = s\<lparr>sys_entity := fst (update_state str r (sys_entity s))\<rparr>"

fun updates :: "'v operation list \<Rightarrow> 'v render_result list" where
  "updates [] = []"
| "updates (Write a # ops) = updates ops"
| "updates (Update r # ops) = r # updates ops"

section \<open>Example values\<close>

definition example_keys :: conf_keys where
  "example_keys =
     \<lparr> CONF_SET_TEMPERATURE_SCRIPT = ''set_temperature'',
       CONF_SET_HUMIDITY_SCRIPT = ''set_humidity'',
       CONF_TURN_ON_SCRIPT = ''turn_on'',
       CONF_TURN_OFF_SCRIPT = ''turn_off'',
       CONF_TOGGLE_SCRIPT = ''toggle'' \<rparr>"

definition example_features :: ClimateEntityFeature where
  "example_features =
     \<lparr> TARGET_TEMPERATURE = 1, TARGET_HUMIDITY = 4, FAN_MODE = 8, PRESET_MODE = 16,
       SWING_MODE = 32, SWING_HORIZONTAL_MODE = 512, TURN_OFF = 128, TURN_ON = 256 \<rparr>"

definition example_base :: ClimateEntity where
  "example_base =
     \<lparr> base_entity_id = ''climate.base'',
       base_supported_features = 1,
       base_state = Some ''heat'',
       base_hvac_modes = Some [''heat'', ''off''],
       base_preset_modes = Some [''eco''] \<rparr>"

definition example_hass :: HomeAssistant where
  "example_hass =
     \<lparr> data_climate = (\<lambda>eid. if eid = ''climate.base'' then Some example_base else None) \<rparr>"

definition empty_hass :: HomeAssistant where
  "empty_hass = \<lparr> data_climate = (\<lambda>eid. None) \<rparr>"

text \<open>A configuration with nothing but the required unit.\<close>

definition config_minimal :: ConfigType where
  "config_minimal =
     \<lparr> conf_unique_id = None,
       conf_temperature_unit = ''C'',
       conf_state = None,
       conf_base_climate_entity_id = None,
       conf_service_scripts = [],
       conf_hvac_mode_scripts = [],
       conf_preset_mode_scripts = [],
       conf_fan_mode_scripts = [],
       conf_swing_mode_scripts = [],
       conf_swing_horizontal_mode_scripts = [] \<rparr>"

text \<open>No state template, and a base entity.\<close>

definition config_base_only :: ConfigType where
  "config_base_only = config_minimal\<lparr>conf_base_climate_entity_id := Some ''climate.base''\<rparr>"

text \<open>A state template, a base entity, and one script in each mapping.\<close>

definition config_full :: ConfigType where
  "config_full =
     \<lparr> conf_unique_id = None,
       conf_temperature_unit = ''C'',
       conf_state = Some ''{{ states.sensor.mode.state }}'',
       conf_base_climate_entity_id = Some ''climate.base'',
       conf_service_scripts = [(''turn_on'', [[(''service'', Py_str ''switch.turn_on'')]])],
       conf_hvac_mode_scripts = [(''cool'', [[(''service'', Py_str ''script.cool'')]])],
       conf_preset_mode_scripts = [(''away'', [[(''service'', Py_str ''script.away'')]])],
       conf_fan_mode_scripts = [(''low'', [[(''service'', Py_str ''script.fan_low'')]])],
       conf_swing_mode_scripts = [(''on'', [[(''service'', Py_str ''script.swing'')]])],
       conf_swing_horizontal_mode_scripts = [(''on'', [[(''service'', Py_str ''script.hswing'')]])] \<rparr>"

text \<open>A host whose calls all complete and leave the registry as it is, and one whose
  script runs raise.\<close>

definition host_ok :: host where
  "host_ok c hass = (None, hass)"

definition host_failing_scripts :: host where
  "host_failing_scripts c hass =
     (case c of
        Script_run script vars ctx \<Rightarrow> (Some (Exn ''script failed''), hass)
      | Entity_call b a \<Rightarrow> (None, hass))"

text \<open>The entity that \<^verbatim>\<open>__init__\<close> builds from \<open>config_full\<close> under the name
  \<^verbatim>\<open>thermostat\<close>.\<close>

definition example_entity :: TemplateClimate where
  "example_entity =
     \<lparr> self_unique_id = Some ''thermostat'',
       self_attr_should_poll = False,
       self_attr_temperature_unit = ''C'',
       self_base_climate_entity_id = Some ''climate.base'',
       self_state_template = Some (Template (Some ''{{ states.sensor.mode.state }}'')),
       self_state = None,
       self_service_scripts =
         [(''turn_on'', Script [[(''service'', Py_str ''switch.turn_on'')]] ''thermostat'' ''climate'')],
       self_hvac_mode_scripts =
         [(''cool'', Script [[(''service'', Py_str ''script.cool'')]] ''thermostat'' ''climate'')],
       self_preset_mode_scripts =
         [(''away'', Script [[(''service'', Py_str ''script.away'')]] ''thermostat'' ''climate'')],
       self_fan_mode_scripts =
         [(''low'', Script [[(''service'', Py_str ''script.fan_low'')]] ''thermostat'' ''climate'')],
       self_swing_mode_scripts =
         [(''on'', Script [[(''service'', Py_str ''script.swing'')]] ''thermostat'' ''climate'')],
       self_swing_horizontal_mode_scripts =
         [(''on'', Script [[(''service'', Py_str ''script.hswing'')]] ''thermostat'' ''climate'')],
       self_context = None \<rparr>"

text \<open>Only a state template; and a state template with a base entity.\<close>

definition config_state_only :: ConfigType where
  "config_state_only = config_minimal\<lparr>conf_state := Some ''{{ states.sensor.mode.state }}''\<rparr>"

definition config_state_base :: ConfigType where
  "config_state_base = config_state_only\<lparr>conf_base_climate_entity_id := Some ''climate.base''\<rparr>"

section \<open>Facts about construction\<close>

lemma dict_keys_make_scripts: "dict_keys (make_scripts name d) = dict_keys d"
  by (induction d) (auto simp: dict_keys_def make_scripts_def)

lemma make_scripts_eq_Nil: "(make_scripts name d = []) = (d = [])"
  by (simp add: make_scripts_def)

lemma init_Inr_template: "init T cfg name = Inr self \<Longrightarrow> self_state_template self \<noteq> None"
  by (auto simp: init_def Let_def split: sum.splits)

lemma init_Inr_state: "init T cfg name = Inr self \<Longrightarrow> self_state self = None"
  by (auto simp: init_def Let_def split: sum.splits)

lemma init_Inr_base_id:
  "init T cfg name = Inr self \<Longrightarrow> self_base_climate_entity_id self = conf_base_climate_entity_id cfg"
  by (auto simp: init_def Let_def split: sum.splits)

lemma init_Inr_hvac:
  "init T cfg name = Inr self \<Longrightarrow> self_hvac_mode_scripts self = make_scripts name (conf_hvac_mode_scripts cfg)"
  by (auto simp: init_def Let_def split: sum.splits)

lemma init_Inr_preset:
  "init T cfg name = Inr self \<Longrightarrow> self_preset_mode_scripts self = make_scripts name (conf_preset_mode_scripts cfg)"
  by (auto simp: init_def Let_def split: sum.splits)

text \<open>With a constructor that refuses \<^verbatim>\<open>None\<close>, a configuration without state
  template builds no entity.\<close>

lemma init_without_state_raises:
  "Template_init None = Inl e \<Longrightarrow> conf_state cfg = None \<Longrightarrow> init Template_init cfg name = Inl e"
  by (simp add: init_def)

lemma init_strict_has_state:
  "init Template_strict cfg name = Inr self \<Longrightarrow> conf_state cfg \<noteq> None"
  by (auto simp: init_def Template_strict_def split: option.splits)

lemma state_after_init: "init T cfg name = Inr self \<Longrightarrow> state hass self = None"
  by (simp add: state_def init_Inr_template init_Inr_state)

lemma base_climate_entity_init:
  "init T cfg name = Inr self \<Longrightarrow>
     base_climate_entity hass self =
       (case conf_base_climate_entity_id cfg of
          None \<Rightarrow> None
        | Some eid \<Rightarrow> if eid = [] then None else get_entity hass eid)"
  by (simp add: base_climate_entity_def init_Inr_base_id)

lemma init_config_full: "init Template_strict config_full ''thermostat'' = Inr example_entity"
  by (simp add: init_def Template_strict_def config_full_def example_entity_def make_scripts_def
      CLIMATE_DOMAIN_def)

lemma base_of_example_entity: "base_climate_entity example_hass example_entity = Some example_base"
  by (simp add: base_climate_entity_def get_entity_def example_hass_def example_entity_def)

section \<open>Facts about the feature flags\<close>

lemma or_step: "(if c then s OR x else s) = s OR (if c then x else (0::int))"
  by simp

lemma and_or_absorb: "(a OR (t OR r)) AND t = (t::int)"
  by (auto simp: bit_eq_iff bit_and_iff bit_or_iff)

lemma supported_features_closed:
  "supported_features K F hass self =
     (case base_climate_entity hass self of Some b \<Rightarrow> base_supported_features b | None \<Rightarrow> 0)
     OR (if CONF_TURN_ON_SCRIPT K \<in> set (dict_keys (self_service_scripts self)) then TURN_ON F else 0)
     OR (if CONF_TURN_OFF_SCRIPT K \<in> set (dict_keys (self_service_scripts self)) then TURN_OFF F else 0)
     OR (if CONF_SET_TEMPERATURE_SCRIPT K \<in> set (dict_keys (self_service_scripts self))
         then TARGET_TEMPERATURE F else 0)
     OR (if CONF_SET_HUMIDITY_SCRIPT K \<in> set (dict_keys (self_service_scripts self))
         then TARGET_HUMIDITY F else 0)
     OR (if self_fan_mode_scripts self \<noteq> [] then FAN_MODE F else 0)
     OR (if self_preset_mode_scripts self \<noteq> [] then PRESET_MODE F else 0)
     OR (if self_swing_mode_scripts self \<noteq> [] then SWING_MODE F else 0)
     OR (if self_swing_horizontal_mode_scripts self \<noteq> [] then SWING_HORIZONTAL_MODE F else 0)"
  unfolding supported_features_def Let_def or_step
  by (simp add: or.assoc split: option.split)

section \<open>Facts about the write paths\<close>

text \<open>No awaited call, and so no write action, touches the entity.\<close>

lemma await_entity: "sys_entity (snd (await h c s)) = sys_entity s"
  by (simp add: await_def split: prod.split)

lemma run_script_entity: "sys_entity (snd (run_script h scripts key vars s)) = sys_entity s"
  by (simp add: run_script_def await_entity split: option.split)

lemma forward_entity: "sys_entity (snd (forward h a s)) = sys_entity s"
  by (simp add: forward_def await_entity split: option.split)

lemma seq_entity:
  assumes "\<And>s. sys_entity (snd (f s)) = sys_entity s"
    and "\<And>s. sys_entity (snd (g s)) = sys_entity s"
  shows "sys_entity (snd (seq f g s)) = sys_entity s"
proof (cases "f s")
  case (Pair r s')
  have s': "sys_entity s' = sys_entity s"
    using assms(1) [of s] Pair by simp
  show ?thesis
  proof (cases r)
    case None
    with Pair s' assms(2) [of s'] show ?thesis by (simp add: seq_def)
  next
    case (Some e)
    with Pair s' show ?thesis by (simp add: seq_def)
  qed
qed

lemma write_action_entity: "sys_entity (snd (write_action K h a s)) = sys_entity s"
  by (cases a)
    (simp_all add: async_set_temperature_def async_set_humidity_def async_set_fan_mode_def
      async_set_hvac_mode_def async_set_swing_mode_def async_set_swing_horizontal_mode_def
      async_set_preset_mode_def async_turn_on_def async_turn_off_def async_toggle_def
      seq_entity run_script_entity forward_entity)

lemma step_entity:
  "sys_entity (step K h str s op) =
     (case op of Write a \<Rightarrow> sys_entity s | Update r \<Rightarrow> fst (update_state str r (sys_entity s)))"
  by (cases op) (simp_all add: write_action_entity)

lemma foldl_step_entity:
  "sys_entity (foldl (step K h str) s ops) =
     foldl (\<lambda>e r. fst (update_state str r e)) (sys_entity s) (updates ops)"
proof (induction ops arbitrary: s)
  case Nil
  show ?case by simp
next
  case (Cons op ops)
  show ?case
    by (cases op) (simp_all add: Cons.IH write_action_entity)
qed

text \<open>Each of the ten methods is the same two statements: run the applicable script,
  if there is one, then forward the action to the base entity, if there is one.\<close>

lemma write_action_dispatch:
  "write_action K h a s =
     seq (\<lambda>s. case applicable_script K (sys_entity s) a of
                Some script \<Rightarrow> await h (Script_run script (run_variables a) (self_context (sys_entity s))) s
              | None \<Rightarrow> (None, s))
         (forward h a) s"
  by (cases a)
    (simp_all add: async_set_temperature_def async_set_humidity_def async_set_fan_mode_def
      async_set_hvac_mode_def async_set_swing_mode_def async_set_swing_horizontal_mode_def
      async_set_preset_mode_def async_turn_on_def async_turn_off_def async_toggle_def
      seq_def run_script_def cong: option.case_cong)

text \<open>The other outcomes of the two statements: a script whose run raises ends the
  action before the base entity is asked; without an applicable script the action is
  forwarded all the same; without a base entity the script runs all the same.\<close>

lemma write_action_script_raises:
  assumes "applicable_script K (sys_entity s) a = Some script"
    and "h (Script_run script (run_variables a) (self_context (sys_entity s))) (sys_hass s) = (Some e, hass1)"
  shows "write_action K h a s =
     (Some e, s\<lparr>sys_hass := hass1,
                sys_calls := sys_calls s @
                  [Script_run script (run_variables a) (self_context (sys_entity s))]\<rparr>)"
  using assms by (simp add: write_action_dispatch seq_def await_def)

lemma write_action_without_script:
  assumes "applicable_script K (sys_entity s) a = None"
  shows "write_action K h a s = forward h a s"
  using assms by (simp add: write_action_dispatch seq_def)

lemma write_action_without_base:
  assumes "applicable_script K (sys_entity s) a = Some script"
    and "h (Script_run script (run_variables a) (self_context (sys_entity s))) (sys_hass s) = (None, hass1)"
    and "base_climate_entity hass1 (sys_entity s) = None"
  shows "write_action K h a s =
     (None, s\<lparr>sys_hass := hass1,
              sys_calls := sys_calls s @
                [Script_run script (run_variables a) (self_context (sys_entity s))]\<rparr>)"
  using assms by (simp add: write_action_dispatch seq_def await_def forward_def)

section \<open>Facts about histories\<close>

lemma update_state_template:
  "self_state_template (fst (update_state str r self)) = self_state_template self"
  by (simp add: update_state_def split: render_result.split option.split)

lemma foldl_update_template:
  "self_state_template (foldl (\<lambda>e r. fst (update_state str r e)) self rs) = self_state_template self"
  by (induction rs arbitrary: self) (simp_all add: update_state_template)

text \<open>Whatever happens to a constructed entity, \<^verbatim>\<open>state\<close> is the stored state: the
  branch of \<^verbatim>\<open>state\<close> that asks the base entity is never taken.\<close>

lemma state_never_delegates:
  assumes "init T cfg name = Inr self"
  shows "state hass' (sys_entity (foldl (step K h str)
            \<lparr>sys_entity = self, sys_hass = hass, sys_calls = []\<rparr> ops)) =
         self_state (sys_entity (foldl (step K h str)
            \<lparr>sys_entity = self, sys_hass = hass, sys_calls = []\<rparr> ops))"
  by (simp add: state_def foldl_step_entity foldl_update_template init_Inr_template [OF assms])

section \<open>The claims\<close>

text \<open>
  C1. The claimed precedence of \<^verbatim>\<open>state\<close> is: the rendered state template if one is
  configured, otherwise the state of a configured and resolvable base entity, otherwise
  absent. The second step is not what the code does. \<^verbatim>\<open>__init__\<close> wraps
  \<^verbatim>\<open>config.get(CONF_STATE)\<close> in a template object also when it is \<^verbatim>\<open>None\<close>, although
  the attribute is annotated \<^verbatim>\<open>Template | None\<close> and \<^verbatim>\<open>state\<close> tests it. With a
  constructor that accepts \<^verbatim>\<open>None\<close>, the entity built from a configuration with a base
  entity and no state template reports no state while its base entity reports
  \<^verbatim>\<open>heat\<close>; with a constructor that insists on a string, no entity is built at all.
\<close>

theorem C1_state_without_template_ignores_base_entity:
  "(\<exists>self. init Template_accepting config_base_only ''thermostat'' = Inr self
      \<and> base_climate_entity example_hass self = Some example_base
      \<and> base_state example_base = Some ''heat''
      \<and> state example_hass self = None)
   \<and> init Template_strict config_base_only ''thermostat'' = Inl (Exn ''TypeError'')"
proof -
  obtain self where h: "init Template_accepting config_base_only ''thermostat'' = Inr self"
    by (simp add: init_def Template_accepting_def)
  have b: "base_climate_entity example_hass self = Some example_base"
    by (simp add: base_climate_entity_init [OF h] config_base_only_def config_minimal_def
        get_entity_def example_hass_def)
  have "state example_hass self = None"
    by (rule state_after_init [OF h])
  moreover have "init Template_strict config_base_only ''thermostat'' = Inl (Exn ''TypeError'')"
    by (simp add: init_def Template_strict_def config_base_only_def config_minimal_def)
  ultimately show ?thesis
    using h b by (simp add: example_base_def)
qed

text \<open>
  C2. \<^verbatim>\<open>supported_features\<close> is the bitwise OR of the features of the base entity (zero
  when none is configured and resolvable) with one flag for each script group that
  exists: turn-on, turn-off, target temperature and target humidity when the service
  script key is present, fan mode, preset mode, swing mode and horizontal swing mode when
  the mode mapping is not empty. So with a turn-on script the result includes the
  turn-on flag whatever the base entity advertises.
\<close>

theorem C2_supported_features:
  "supported_features K F hass self =
     (case base_climate_entity hass self of Some b \<Rightarrow> base_supported_features b | None \<Rightarrow> 0)
     OR (if CONF_TURN_ON_SCRIPT K \<in> set (dict_keys (self_service_scripts self)) then TURN_ON F else 0)
     OR (if CONF_TURN_OFF_SCRIPT K \<in> set (dict_keys (self_service_scripts self)) then TURN_OFF F else 0)
     OR (if CONF_SET_TEMPERATURE_SCRIPT K \<in> set (dict_keys (self_service_scripts self))
         then TARGET_TEMPERATURE F else 0)
     OR (if CONF_SET_HUMIDITY_SCRIPT K \<in> set (dict_keys (self_service_scripts self))
         then TARGET_HUMIDITY F else 0)
     OR (if self_fan_mode_scripts self \<noteq> [] then FAN_MODE F else 0)
     OR (if self_preset_mode_scripts self \<noteq> [] then PRESET_MODE F else 0)
     OR (if self_swing_mode_scripts self \<noteq> [] then SWING_MODE F else 0)
     OR (if self_swing_horizontal_mode_scripts self \<noteq> [] then SWING_HORIZONTAL_MODE F else 0)
   \<and> (CONF_TURN_ON_SCRIPT K \<in> set (dict_keys (self_service_scripts self)) \<longrightarrow>
        supported_features K F hass self AND TURN_ON F = TURN_ON F)"
proof (intro conjI impI)
  show "supported_features K F hass self =
     (case base_climate_entity hass self of Some b \<Rightarrow> base_supported_features b | None \<Rightarrow> 0)
     OR (if CONF_TURN_ON_SCRIPT K \<in> set (dict_keys (self_service_scripts self)) then TURN_ON F else 0)
     OR (if CONF_TURN_OFF_SCRIPT K \<in> set (dict_keys (self_service_scripts self)) then TURN_OFF F else 0)
     OR (if CONF_SET_TEMPERATURE_SCRIPT K \<in> set (dict_keys (self_service_scripts self))
         then TARGET_TEMPERATURE F else 0)
     OR (if CONF_SET_HUMIDITY_SCRIPT K \<in> set (dict_keys (self_service_scripts self))
         then TARGET_HUMIDITY F else 0)
     OR (if self_fan_mode_scripts self \<noteq> [] then FAN_MODE F else 0)
     OR (if self_preset_mode_scripts self \<noteq> [] then PRESET_MODE F else 0)
     OR (if self_swing_mode_scripts self \<noteq> [] then SWING_MODE F else 0)
     OR (if self_swing_horizontal_mode_scripts self \<noteq> [] then SWING_HORIZONTAL_MODE F else 0)"
    by (rule supported_features_closed)
next
  assume on: "CONF_TURN_ON_SCRIPT K \<in> set (dict_keys (self_service_scripts self))"
  show "supported_features K F hass self AND TURN_ON F = TURN_ON F"
    unfolding supported_features_closed using on by (simp add: and_or_absorb)
qed

theorem C2_witness:
  "CONF_TURN_ON_SCRIPT example_keys \<in> set (dict_keys (self_service_scripts example_entity))
   \<and> supported_features example_keys example_features example_hass example_entity = 825
   \<and> supported_features example_keys example_features example_hass example_entity
         AND TURN_ON example_features = TURN_ON example_features"
proof -
  have on: "CONF_TURN_ON_SCRIPT example_keys \<in> set (dict_keys (self_service_scripts example_entity))"
    by (simp add: example_keys_def example_entity_def dict_keys_def)
  have v: "supported_features example_keys example_features example_hass example_entity = 825"
    using C2_supported_features [of example_keys example_features example_hass example_entity]
    unfolding base_of_example_entity
    by (simp add: example_base_def example_keys_def example_features_def
        example_entity_def dict_keys_def)
  show ?thesis
    using on v C2_supported_features [of example_keys example_features example_hass example_entity]
    by (simp add: example_features_def)
qed

text \<open>
  C3. For each of the ten write actions: when the entity has an applicable script, the
  awaited run of that script completes, and the base entity is resolvable afterwards,
  the action awaits exactly two calls, in this order: the run of the script with the
  entity's context, then the same action with the same arguments on the base entity.
  The outcome of the action is the outcome of the second call. The script receives the
  keyword arguments (set temperature), the humidity under its name (set humidity), and no
  variables for the other actions, where the argument selects the script.
\<close>

theorem C3_script_then_base_entity:
  assumes "applicable_script K (sys_entity s) a = Some script"
    and "h (Script_run script (run_variables a) (self_context (sys_entity s))) (sys_hass s) = (None, hass1)"
    and "base_climate_entity hass1 (sys_entity s) = Some b"
    and "h (Entity_call b a) hass1 = (r, hass2)"
  shows "write_action K h a s =
     (r, s\<lparr>sys_hass := hass2,
           sys_calls := sys_calls s @
             [Script_run script (run_variables a) (self_context (sys_entity s)), Entity_call b a]\<rparr>)"
  using assms by (simp add: write_action_dispatch seq_def forward_def await_def)

theorem C3_witness:
  "write_action example_keys host_ok (Set_fan_mode ''low'')
     \<lparr>sys_entity = example_entity, sys_hass = example_hass, sys_calls = []\<rparr> =
   (None, \<lparr>sys_entity = example_entity, sys_hass = example_hass,
           sys_calls = [Script_run (Script [[(''service'', Py_str ''script.fan_low'')]] ''thermostat'' ''climate'')
                          None None,
                        Entity_call example_base (Set_fan_mode ''low'')]\<rparr>)"
proof -
  let ?s = "\<lparr>sys_entity = example_entity, sys_hass = example_hass, sys_calls = []\<rparr>"
  let ?script = "Script [[(''service'', Py_str ''script.fan_low'')]] ''thermostat'' ''climate''"
  have 1: "applicable_script example_keys (sys_entity ?s) (Set_fan_mode ''low'') = Some ?script"
    by (simp add: example_entity_def)
  have 2: "host_ok (Script_run ?script (run_variables (Set_fan_mode ''low''))
             (self_context (sys_entity ?s))) (sys_hass ?s) = (None, example_hass)"
    by (simp add: host_ok_def)
  have 3: "base_climate_entity example_hass (sys_entity ?s) = Some example_base"
    by (simp add: base_of_example_entity)
  have 4: "host_ok (Entity_call example_base (Set_fan_mode ''low'')) example_hass = (None, example_hass)"
    by (simp add: host_ok_def)
  show ?thesis
    using C3_script_then_base_entity [OF 1 2 3 4] by (simp add: example_entity_def)
qed

text \<open>
  C4. When the preset-mode script mapping of the configuration is not empty,
  \<^verbatim>\<open>preset_modes\<close> is the list of its keys, for every registry of the host: with or
  without a base entity, whatever presets that entity has.
\<close>

theorem C4_preset_modes_are_script_keys:
  assumes "init T cfg name = Inr self"
    and "conf_preset_mode_scripts cfg \<noteq> []"
  shows "preset_modes hass self = Some (dict_keys (conf_preset_mode_scripts cfg))"
  using assms
  by (simp add: preset_modes_def init_Inr_preset make_scripts_eq_Nil dict_keys_make_scripts)

theorem C4_witness:
  "\<exists>self. init Template_strict config_full ''thermostat'' = Inr self
     \<and> conf_preset_mode_scripts config_full \<noteq> []
     \<and> base_climate_entity example_hass self = Some example_base
     \<and> base_preset_modes example_base = Some [''eco'']
     \<and> preset_modes example_hass self = Some [''away'']
     \<and> preset_modes empty_hass self = Some [''away'']"
proof -
  have ne: "conf_preset_mode_scripts config_full \<noteq> []"
    by (simp add: config_full_def)
  have keys: "dict_keys (conf_preset_mode_scripts config_full) = [''away'']"
    by (simp add: config_full_def dict_keys_def)
  show ?thesis
    using C4_preset_modes_are_script_keys [OF init_config_full ne, of example_hass]
      C4_preset_modes_are_script_keys [OF init_config_full ne, of empty_hass]
      ne keys init_config_full base_of_example_entity
    by (simp add: example_base_def)
qed

text \<open>
  C5. \<^verbatim>\<open>_update_state\<close>: a render error clears the stored state and logs one error; so
  does a result whose conversion to a string raises \<^verbatim>\<open>ValueError\<close>; a result that
  converts becomes the stored state, and nothing is logged. The callback returns in each
  case.
\<close>

theorem C5_update_state:
  "update_state str (TemplateError err) self =
     (self\<lparr>self_state := None\<rparr>,
      [Log_error ''Could not render state template: %s'' (TemplateError err)])
   \<and> (str v = None \<longrightarrow>
        update_state str (Rendered v) self =
          (self\<lparr>self_state := None\<rparr>, [Log_error ''Received invalid state: %s'' (Rendered v)]))
   \<and> (str v = Some s \<longrightarrow>
        update_state str (Rendered v) self = (self\<lparr>self_state := Some s\<rparr>, []))"
  by (simp add: update_state_def)

theorem C5_witness:
  "self_state (fst (update_state Some (TemplateError ''undefined'') (example_entity\<lparr>self_state := Some ''heat''\<rparr>))) = None
   \<and> snd (update_state Some (TemplateError ''undefined'') (example_entity\<lparr>self_state := Some ''heat''\<rparr>))
       = [Log_error ''Could not render state template: %s'' (TemplateError ''undefined'')]
   \<and> (\<lambda>v::string. None::string option) ''cool'' = None
   \<and> update_state (\<lambda>v. None) (Rendered ''cool'') (example_entity\<lparr>self_state := Some ''heat''\<rparr>)
       = (example_entity\<lparr>self_state := None\<rparr>, [Log_error ''Received invalid state: %s'' (Rendered ''cool'')])
   \<and> Some ''cool'' = Some ''cool''
   \<and> update_state Some (Rendered ''cool'') (example_entity\<lparr>self_state := Some ''heat''\<rparr>)
       = (example_entity\<lparr>self_state := Some ''cool''\<rparr>, [])"
  using C5_update_state [of Some "''undefined''" "example_entity\<lparr>self_state := Some ''heat''\<rparr>" "''cool''" "''cool''"]
    C5_update_state [of "\<lambda>v. None" "''undefined''" "example_entity\<lparr>self_state := Some ''heat''\<rparr>" "''cool''" "''cool''"]
  by simp

text \<open>
  C6. \<^verbatim>\<open>hvac_modes\<close> of an entity built from a configuration: the keys of the
  HVAC-mode script mapping when it is not empty; otherwise what the base entity reports,
  when one is configured and resolvable; otherwise the empty list.
\<close>

theorem C6_hvac_modes_precedence:
  assumes "init T cfg name = Inr self"
  shows "hvac_modes hass self =
     (if conf_hvac_mode_scripts cfg \<noteq> [] then Some (dict_keys (conf_hvac_mode_scripts cfg))
      else case base_climate_entity hass self of
             Some b \<Rightarrow> base_hvac_modes b
           | None \<Rightarrow> Some [])"
  using assms
  by (simp add: hvac_modes_def init_Inr_hvac make_scripts_eq_Nil dict_keys_make_scripts)

theorem C6_witness:
  "(\<exists>self. init Template_strict config_full ''thermostat'' = Inr self
      \<and> base_climate_entity example_hass self = Some example_base
      \<and> hvac_modes example_hass self = Some [''cool''])
   \<and> (\<exists>self. init Template_strict config_state_base ''thermostat'' = Inr self
      \<and> base_climate_entity example_hass self = Some example_base
      \<and> hvac_modes example_hass self = Some [''heat'', ''off''])
   \<and> (\<exists>self. init Template_strict config_state_base ''thermostat'' = Inr self
      \<and> base_climate_entity empty_hass self = None
      \<and> hvac_modes empty_hass self = Some [])"
proof -
  obtain self where h: "init Template_strict config_state_base ''thermostat'' = Inr self"
    by (simp add: init_def Template_strict_def config_state_base_def config_state_only_def)
  have b: "base_climate_entity example_hass self = Some example_base"
    by (simp add: base_climate_entity_init [OF h] config_state_base_def config_state_only_def
        config_minimal_def get_entity_def example_hass_def)
  have e: "base_climate_entity empty_hass self = None"
    by (simp add: base_climate_entity_init [OF h] config_state_base_def config_state_only_def
        config_minimal_def get_entity_def empty_hass_def)
  have n: "conf_hvac_mode_scripts config_state_base = []"
    by (simp add: config_state_base_def config_state_only_def config_minimal_def)
  have 1: "hvac_modes example_hass example_entity = Some [''cool'']"
    using C6_hvac_modes_precedence [OF init_config_full, of example_hass]
    by (simp add: config_full_def dict_keys_def)
  have 2: "hvac_modes example_hass self = Some [''heat'', ''off'']"
    using C6_hvac_modes_precedence [OF h, of example_hass] b n by (simp add: example_base_def)
  have 3: "hvac_modes empty_hass self = Some []"
    using C6_hvac_modes_precedence [OF h, of empty_hass] e n by simp
  show ?thesis
    using h b e 1 2 3 init_config_full base_of_example_entity by simp
qed

text \<open>
  C7. Toggle on an entity with no toggle script and no base entity id awaits no call,
  leaves the entity, the registry and the list of calls as they are, and returns without
  an exception, whatever the host would do with a call.
\<close>

theorem C7_toggle_without_script_and_base:
  assumes "CONF_TOGGLE_SCRIPT K \<notin> set (dict_keys (self_service_scripts (sys_entity s)))"
    and "self_base_climate_entity_id (sys_entity s) = None"
  shows "async_toggle K h s = (None, s)"
proof -
  have "map_of (self_service_scripts (sys_entity s)) (CONF_TOGGLE_SCRIPT K) = None"
    using assms(1) by (simp add: map_of_eq_None_iff dict_keys_def)
  moreover have "base_climate_entity (sys_hass s) (sys_entity s) = None"
    using assms(2) by (simp add: base_climate_entity_def)
  ultimately show ?thesis
    by (simp add: async_toggle_def seq_def run_script_def forward_def)
qed

theorem C7_witness:
  "CONF_TOGGLE_SCRIPT example_keys \<notin>
     set (dict_keys (self_service_scripts (example_entity\<lparr>self_base_climate_entity_id := None\<rparr>)))
   \<and> async_toggle example_keys host_failing_scripts
        \<lparr>sys_entity = example_entity\<lparr>self_base_climate_entity_id := None\<rparr>,
         sys_hass = example_hass, sys_calls = []\<rparr>
      = (None, \<lparr>sys_entity = example_entity\<lparr>self_base_climate_entity_id := None\<rparr>,
                sys_hass = example_hass, sys_calls = []\<rparr>)"
proof -
  let ?s = "\<lparr>sys_entity = example_entity\<lparr>self_base_climate_entity_id := None\<rparr>,
            sys_hass = example_hass, sys_calls = []\<rparr>"
  have 1: "CONF_TOGGLE_SCRIPT example_keys \<notin> set (dict_keys (self_service_scripts (sys_entity ?s)))"
    by (simp add: example_keys_def example_entity_def dict_keys_def)
  have 2: "self_base_climate_entity_id (sys_entity ?s) = None"
    by simp
  show ?thesis
    using C7_toggle_without_script_and_base [OF 1 2, of host_failing_scripts] 1 by simp
qed

text \<open>
  C8. An entity configured with no state template and no base entity should report no
  state, through the last line of \<^verbatim>\<open>state\<close>. The code does not get there. For such a
  configuration \<^verbatim>\<open>__init__\<close> hands \<^verbatim>\<open>None\<close> to the template constructor: a
  constructor that insists on a string raises, so there is no entity whose state could
  be read; a constructor that accepts \<^verbatim>\<open>None\<close> leaves a template object in the
  attribute, so \<^verbatim>\<open>state\<close> answers from its first branch with the stored state and
  its last line stays unreached. This is the defect of C1.
\<close>

theorem C8_state_default_not_reached:
  "conf_state config_minimal = None
   \<and> conf_base_climate_entity_id config_minimal = None
   \<and> init Template_strict config_minimal ''thermostat'' = Inl (Exn ''TypeError'')
   \<and> (\<exists>self. init Template_accepting config_minimal ''thermostat'' = Inr self
        \<and> self_state_template self = Some (Template None)
        \<and> state example_hass self = self_state self)"
proof -
  have c: "conf_state config_minimal = None" "conf_base_climate_entity_id config_minimal = None"
    by (simp_all add: config_minimal_def)
  have r: "init Template_strict config_minimal ''thermostat'' = Inl (Exn ''TypeError'')"
    by (rule init_without_state_raises [OF _ c(1)]) (simp add: Template_strict_def)
  obtain self where h: "init Template_accepting config_minimal ''thermostat'' = Inr self"
    by (simp add: init_def Template_accepting_def)
  have t: "self_state_template self = Some (Template None)"
    using h c(1) by (auto simp: init_def Template_accepting_def)
  have "state example_hass self = self_state self"
    using t by (simp add: state_def)
  with c r h t show ?thesis by blast
qed

text \<open>
  C9. A write action leaves every field of the entity as it was. Over a history of write
  actions and template updates, the entity at the end is the entity at the start with
  only the template updates applied, in their order: the write actions contribute
  nothing to it.
\<close>

theorem C9_write_actions_leave_entity_unchanged:
  "sys_entity (snd (write_action K h a s)) = sys_entity s
   \<and> sys_entity (foldl (step K h str) s ops) =
       foldl (\<lambda>e r. fst (update_state str r e)) (sys_entity s) (updates ops)"
  by (simp add: write_action_entity foldl_step_entity)

text \<open>
  C10. With no resolvable base entity, the two mode lists have different defaults: an
  empty HVAC-mode script mapping gives the empty list, an empty preset-mode script
  mapping gives \<^verbatim>\<open>None\<close>.
\<close>

theorem C10_mode_list_defaults_differ:
  assumes "init T cfg name = Inr self"
    and "base_climate_entity hass self = None"
  shows "(conf_hvac_mode_scripts cfg = [] \<longrightarrow> hvac_modes hass self = Some [])
     \<and> (conf_preset_mode_scripts cfg = [] \<longrightarrow> preset_modes hass self = None)"
  using assms
  by (simp add: hvac_modes_def preset_modes_def init_Inr_hvac init_Inr_preset make_scripts_eq_Nil)

theorem C10_witness:
  "\<exists>self. init Template_strict config_state_only ''thermostat'' = Inr self
     \<and> base_climate_entity example_hass self = None
     \<and> conf_hvac_mode_scripts config_state_only = []
     \<and> conf_preset_mode_scripts config_state_only = []
     \<and> hvac_modes example_hass self = Some []
     \<and> preset_modes example_hass self = None"
proof -
  obtain self where h: "init Template_strict config_state_only ''thermostat'' = Inr self"
    by (simp add: init_def Template_strict_def config_state_only_def)
  have b: "base_climate_entity example_hass self = None"
    by (simp add: base_climate_entity_init [OF h] config_state_only_def config_minimal_def)
  have n: "conf_hvac_mode_scripts config_state_only = []" "conf_preset_mode_scripts config_state_only = []"
    by (simp_all add: config_state_only_def config_minimal_def)
  from C10_mode_list_defaults_differ [OF h b] show ?thesis
    using h b n by blast
qed

end
